theory Spec2Isabelle
  imports Complex_Main
begin

section \<open>Numbers of the engine\<close>

text \<open>
  The engine (tradingEngine.js) computes with JavaScript numbers. Prices, balances and
  percentages are modelled as exact reals (the conservation properties are about exact
  arithmetic); the two non-numeric outcomes the code really produces and tests for are kept:
  \<open>undefined\<close> (an indicator that is not available yet, or a missing field of a chart
  point) and \<open>NaN\<close> (the quotient \<open>0 / 0\<close> of an empty slice). Both are falsy, like the
  number zero, and the code's guards (\<open>!fastMA\<close>, \<open>riskLine && ...\<close>) depend on that.
  The one place where the rounding of the doubles decides what the engine does next, the
  stop-loss and sell-trigger comparisons of the scan over the open positions, is modelled
  with that rounding (\<open>double\<close> below).
\<close>

datatype jsnum = Undefined | NaN | Num real

fun truthy :: "jsnum \<Rightarrow> bool" where
  "truthy (Num x) = (x \<noteq> 0)"
| "truthy Undefined = False"
| "truthy NaN = False"

text \<open>The numeric value of a \<open>jsnum\<close>; it is only read behind a \<open>truthy\<close> guard.\<close>

fun num :: "jsnum \<Rightarrow> real" where
  "num (Num x) = x"
| "num Undefined = 0"
| "num NaN = 0"

subsection \<open>The rounding of binary64 arithmetic\<close>

text \<open>
  A JavaScript number is an IEEE 754 binary64 value, and \<open>+\<close>, \<open>-\<close>, \<open>*\<close>, \<open>/\<close> return the
  exact result rounded to the nearest such value, ties to the even significand.
  \<open>double x\<close> is that rounding of a real: with \<open>2 ^ e \<le> \<bar>x\<bar> < 2 ^ (e + 1)\<close> the spacing
  of the doubles around \<open>x\<close> is \<open>2 ^ (e - 52)\<close> (and \<open>2 ^ (- 1074)\<close> below \<open>2 ^ (- 1022)\<close>).
  The exponent has no upper bound here: where JavaScript yields Infinity the model has a
  real of at least \<open>2 ^ 1024\<close>, which compares with every double as Infinity does.
\<close>

fun bitLength :: "nat \<Rightarrow> nat" where
  "bitLength n = (if n = 0 then 0 else Suc (bitLength (n div 2)))"

declare bitLength.simps [simp del]

text \<open>The \<open>e\<close> with \<open>2 ^ e \<le> \<bar>x\<bar> < 2 ^ (e + 1)\<close>, for \<open>x \<noteq> 0\<close>.\<close>

definition binaryExponent :: "real \<Rightarrow> int" where
  "binaryExponent x =
     (if \<bar>x\<bar> \<ge> 1 then int (bitLength (nat \<lfloor>\<bar>x\<bar>\<rfloor>)) - 1
      else - int (bitLength (nat (\<lceil>1 / \<bar>x\<bar>\<rceil> - 1))))"

definition twoTo :: "int \<Rightarrow> real" where
  "twoTo k = (if k \<ge> 0 then 2 ^ nat k else 1 / 2 ^ nat (- k))"

definition roundHalfEven :: "real \<Rightarrow> int" where
  "roundHalfEven x =
     (let f = \<lfloor>x\<rfloor>; d = x - of_int f
      in if d < 1 / 2 then f else if d > 1 / 2 then f + 1 else if even f then f else f + 1)"

definition double :: "real \<Rightarrow> real" where
  "double x =
     (if x = 0 then 0
      else
        let ulp = twoTo (max (binaryExponent x) (- 1022) - 52)
        in of_int (roundHalfEven (x / ulp)) * ulp)"

definition js_add :: "real \<Rightarrow> real \<Rightarrow> real" where
  "js_add x y = double (x + y)"

definition js_sub :: "real \<Rightarrow> real \<Rightarrow> real" where
  "js_sub x y = double (x - y)"

definition js_mul :: "real \<Rightarrow> real \<Rightarrow> real" where
  "js_mul x y = double (x * y)"

text \<open>Division by a non-zero number (the scan divides by 100 only).\<close>

definition js_div :: "real \<Rightarrow> real \<Rightarrow> real" where
  "js_div x y = double (x / y)"

subsection \<open>Rounding to an integer, slices\<close>

text \<open>\<open>Math.round\<close>: the nearest integer, ties towards plus infinity.\<close>

definition Math_round :: "real \<Rightarrow> int" where
  "Math_round x = \<lfloor>x + 1 / 2\<rfloor>"

text \<open>
  \<open>xs.slice(-n)\<close>: for positive \<open>n\<close> the last \<open>n\<close> elements (all of them when the array is
  shorter); for \<open>n \<le> 0\<close> the start index is \<open>min (-n) (length xs)\<close>, so \<open>slice(-0)\<close> is the
  whole array.
\<close>

definition slice_last :: "int \<Rightarrow> 'a list \<Rightarrow> 'a list" where
  "slice_last n xs =
     (if 0 < n then drop (length xs - nat n) xs else drop (nat (- n)) xs)"

section \<open>Indicator module: calculateSMA\<close>

text \<open>
  \<^verbatim>\<open>calculateSMA = (data, period, minPoints = period) => { ... }\<close>
  The default argument is written out at the call sites: \<open>calculateSMA data p p\<close>.
\<close>

definition calculateSMA :: "real list \<Rightarrow> int \<Rightarrow> int \<Rightarrow> jsnum" where
  "calculateSMA data period minPoints =
     (if int (length data) < minPoints then Undefined
      else
        let slice = slice_last period data;
            sum = foldl (\<lambda>acc val. acc + val) 0 slice
        in if slice = [] then NaN else Num (sum / real (length slice)))"

text \<open>The specification's words: the arithmetic mean, and the last \<open>n\<close> elements of a series.\<close>

definition arithmetic_mean :: "real list \<Rightarrow> jsnum" where
  "arithmetic_mean xs = (if xs = [] then NaN else Num (sum_list xs / real (length xs)))"

definition last_elements :: "nat \<Rightarrow> 'a list \<Rightarrow> 'a list" where
  "last_elements n xs = rev (take n (rev xs))"

section \<open>Data model\<close>

record ChartDataPoint =
  time :: int
  price :: real
  fastMA :: jsnum
  slowMA :: jsnum
  riskLine :: jsnum

datatype TradeType = BUY | SELL

text \<open>
  A trade \<^verbatim>\<open>{id, type, price, time, amount, reason}\<close>. Its first four fields carry the
  prefix \<open>trade_\<close> here, since a chart point has \<open>price\<close> and \<open>time\<close> too. An open
  position is the BUY trade that opened it.
\<close>

record Trade =
  trade_id :: nat
  trade_type :: TradeType
  trade_price :: real
  trade_time :: int
  amount :: real
  reason :: string

record Account =
  base :: real
  quote :: real

record TelegramSettings =
  botToken :: string
  chatId :: string
  isTested :: bool
  enablePeriodicMessages :: bool
  periodicMessageInterval :: string
  enableErrorNotifications :: bool
  enableBuyNotifications :: bool
  enableSellNotifications :: bool

text \<open>
  \<open>maxConcurrentPositions\<close> is a count (the settings form restricts it to 1..20), hence a
  natural number. \<open>granularity\<close> and \<open>telegramSettings\<close> may be missing from the object.
\<close>

record TradingSettings =
  tradingPair :: string
  dipsSensitivity :: real
  riskLevel :: real
  stopLossPercentage :: real
  sellTriggerPercentage :: real
  initialBalance :: real
  tradeAmountPercentage :: real
  maxConcurrentPositions :: nat
  backtestSpeed :: real
  granularity :: "real option"
  telegramSettings :: "TelegramSettings option"

text \<open>The argument of \<open>updateSettings\<close>: any subset of the fields.\<close>

record SettingsPatch =
  new_tradingPair :: "string option"
  new_dipsSensitivity :: "real option"
  new_riskLevel :: "real option"
  new_stopLossPercentage :: "real option"
  new_sellTriggerPercentage :: "real option"
  new_initialBalance :: "real option"
  new_tradeAmountPercentage :: "real option"
  new_maxConcurrentPositions :: "nat option"
  new_backtestSpeed :: "real option"
  new_granularity :: "real option option"
  new_telegramSettings :: "TelegramSettings option option"

text \<open>
  What the engine does to the outside world, in order: price fetches, console errors,
  state broadcasts through the update callback, Telegram messages (chat id and message)
  and market orders.
\<close>

datatype effect =
    FetchPrice string
  | LogError string
  | NotifyUpdate
  | SendTelegram string string
  | PlaceOrder string string real

text \<open>
  \<open>this.state\<close> together with the two timer handles and the callback slot of the class.
  A timer handle is modelled by the period it was scheduled with. \<open>effects\<close> is the trace
  of what the engine has emitted so far.
\<close>

record engine =
  isRunning :: bool
  settings :: "TradingSettings option"
  account :: "Account option"
  trades :: "Trade list"
  openPositions :: "Trade list"
  currentPrice :: real
  chartData :: "ChartDataPoint list"
  backtestData :: "ChartDataPoint list option"
  backtestIndex :: nat
  tradeIdCounter :: nat
  startPrice :: real
  lowestAccountValue :: real
  highestAccountValue :: real
  isLive :: bool
  isProcessingTick :: bool
  tradingInterval :: "real option"
  periodicTelegramInterval :: "real option"
  updateCallback :: bool
  effects :: "effect list"

text \<open>Reading a property of \<open>null\<close> throws.\<close>

datatype error = TypeError

definition TradingEngine_new :: engine where
  "TradingEngine_new =
     \<lparr>isRunning = False, settings = None, account = None, trades = [], openPositions = [],
      currentPrice = 0, chartData = [], backtestData = None, backtestIndex = 0,
      tradeIdCounter = 0, startPrice = 0, lowestAccountValue = 0, highestAccountValue = 0,
      isLive = False, isProcessingTick = False, tradingInterval = None,
      periodicTelegramInterval = None, updateCallback = False, effects = []\<rparr>"

definition emit :: "effect \<Rightarrow> engine \<Rightarrow> engine" where
  "emit e s = s\<lparr>effects := effects s @ [e]\<rparr>"

definition setUpdateCallback :: "engine \<Rightarrow> engine" where
  "setUpdateCallback s = s\<lparr>updateCallback := True\<rparr>"

definition notifyUpdate :: "engine \<Rightarrow> engine" where
  "notifyUpdate s = (if updateCallback s then emit NotifyUpdate s else s)"

section \<open>stop and updateSettings\<close>

definition stop :: "engine \<Rightarrow> engine" where
  "stop s =
     (if \<not> isRunning s then s
      else notifyUpdate
             (s\<lparr>isRunning := False, tradingInterval := None, periodicTelegramInterval := None\<rparr>))"

definition override :: "'a option \<Rightarrow> 'a \<Rightarrow> 'a" where
  "override new old = (case new of None \<Rightarrow> old | Some v \<Rightarrow> v)"

text \<open>\<^verbatim>\<open>{ ...this.state.settings, ...newSettings }\<close>\<close>

definition mergeSettings :: "TradingSettings \<Rightarrow> SettingsPatch \<Rightarrow> TradingSettings" where
  "mergeSettings old p =
     \<lparr>tradingPair = override (new_tradingPair p) (tradingPair old),
      dipsSensitivity = override (new_dipsSensitivity p) (dipsSensitivity old),
      riskLevel = override (new_riskLevel p) (riskLevel old),
      stopLossPercentage = override (new_stopLossPercentage p) (stopLossPercentage old),
      sellTriggerPercentage = override (new_sellTriggerPercentage p) (sellTriggerPercentage old),
      initialBalance = override (new_initialBalance p) (initialBalance old),
      tradeAmountPercentage = override (new_tradeAmountPercentage p) (tradeAmountPercentage old),
      maxConcurrentPositions = override (new_maxConcurrentPositions p) (maxConcurrentPositions old),
      backtestSpeed = override (new_backtestSpeed p) (backtestSpeed old),
      granularity = override (new_granularity p) (granularity old),
      telegramSettings = override (new_telegramSettings p) (telegramSettings old)\<rparr>"

text \<open>
  A running engine always has settings (\<open>start\<close> stores them before it sets \<open>isRunning\<close>),
  so the merge into \<open>null\<close> settings is left as it is.
\<close>

definition updateSettings :: "SettingsPatch \<Rightarrow> engine \<Rightarrow> engine" where
  "updateSettings newSettings s =
     (if isRunning s
      then s\<lparr>settings := map_option (\<lambda>old. mergeSettings old newSettings) (settings s)\<rparr>
      else s)"

section \<open>Telegram notifications\<close>

text \<open>\<^verbatim>\<open>settings.telegramSettings?.flag && settings.telegramSettings?.isTested\<close>\<close>

definition telegramEnabled :: "(TelegramSettings \<Rightarrow> bool) \<Rightarrow> TradingSettings \<Rightarrow> bool" where
  "telegramEnabled flag st =
     (case telegramSettings st of None \<Rightarrow> False | Some tg \<Rightarrow> flag tg \<and> isTested tg)"

text \<open>\<open>chatId.split(',')\<close>: the pieces between the commas, empty ones included.\<close>

fun splitComma :: "string \<Rightarrow> string list" where
  "splitComma [] = [[]]"
| "splitComma (c # cs) =
     (if c = CHR '','' then [] # splitComma cs
      else (case splitComma cs of [] \<Rightarrow> [[c]] | w # ws \<Rightarrow> (c # w) # ws))"

text \<open>
  \<open>id.trim()\<close>, for the white space of ASCII: tab, line feed, vertical tab, form feed,
  carriage return and space.
\<close>

definition isWhiteSpace :: "char \<Rightarrow> bool" where
  "isWhiteSpace c \<longleftrightarrow> c \<in> set [CHR 0x09, CHR 0x0A, CHR 0x0B, CHR 0x0C, CHR 0x0D, CHR '' '']"

definition trim :: "string \<Rightarrow> string" where
  "trim w = rev (dropWhile isWhiteSpace (rev (dropWhile isWhiteSpace w)))"

text \<open>\<^verbatim>\<open>chatId.split(',').map(id => id.trim()).filter(id => id)\<close>\<close>

definition chatIds :: "string \<Rightarrow> string list" where
  "chatIds cid = filter (\<lambda>w. w \<noteq> []) (map trim (splitComma cid))"

text \<open>
  \<open>_sendTelegramNotification\<close> returns at once without a bot token or a chat id, and
  otherwise posts the message to every chat id in turn; a failed delivery is caught and
  logged inside the loop, so nothing propagates to the caller.
\<close>

definition sendTelegramNotification :: "TradingSettings \<Rightarrow> string \<Rightarrow> engine \<Rightarrow> engine" where
  "sendTelegramNotification st message s =
     (case telegramSettings st of
        None \<Rightarrow> s
      | Some tg \<Rightarrow>
          if botToken tg = [] \<or> chatId tg = [] then s
          else s\<lparr>effects := effects s @ map (\<lambda>cid. SendTelegram cid message) (chatIds (chatId tg))\<rparr>)"

section \<open>Sell logic\<close>

text \<open>
  The loop of \<open>_executeSellLogic\<close> over the open positions, index \<open>i\<close> upwards: for each
  position first the stop loss, then the sell trigger; the first hit ends the loop. The
  two thresholds are computed as the code computes them, every operation rounded to a
  double: for the entry price 100 and a trigger of 10 per cent the threshold is
  110.00000000000001, so a price of 110 does not reach it.
\<close>

fun findPositionToSell ::
  "TradingSettings \<Rightarrow> real \<Rightarrow> nat \<Rightarrow> Trade list \<Rightarrow> (Trade \<times> string \<times> nat) option" where
  "findPositionToSell st newPrice i [] = None"
| "findPositionToSell st newPrice i (pos # rest) =
     (let stopLossPrice =
            js_mul (trade_price pos) (js_sub 1 (js_div (stopLossPercentage st) 100));
          sellTriggerPrice =
            js_mul (trade_price pos) (js_add 1 (js_div (sellTriggerPercentage st) 100))
      in if newPrice \<le> stopLossPrice then Some (pos, ''Stop Loss'', i)
         else if sellTriggerPercentage st > 0 \<and> newPrice \<ge> sellTriggerPrice
         then Some (pos, ''Sell Trigger'', i)
         else findPositionToSell st newPrice (Suc i) rest)"

text \<open>The position chosen for sale, its reason and its index: the loop, then the crossover.\<close>

definition positionToSell ::
  "TradingSettings \<Rightarrow> real \<Rightarrow> real \<Rightarrow> real \<Rightarrow> real \<Rightarrow> real \<Rightarrow> Trade list
     \<Rightarrow> (Trade \<times> string \<times> nat) option" where
  "positionToSell st newPrice fastMA' slowMA' prevFastMA prevSlowMA ps =
     (case findPositionToSell st newPrice 0 ps of
        Some found \<Rightarrow> Some found
      | None \<Rightarrow>
          if fastMA' < slowMA' \<and> prevFastMA \<ge> prevSlowMA \<and> length ps > 0
          then Some (hd ps, ''MACD Crossover'', 0)
          else None)"

text \<open>\<open>xs.splice(i, 1)\<close>\<close>

definition splice1 :: "nat \<Rightarrow> 'a list \<Rightarrow> 'a list" where
  "splice1 i xs = take i xs @ drop (Suc i) xs"

text \<open>
  With \<open>settings\<close> null the loop body throws at its first position; with \<open>account\<close> null
  the sale throws. Neither happens after \<open>start\<close>.
\<close>

definition executeSellLogic ::
  "real \<Rightarrow> int \<Rightarrow> real \<Rightarrow> real \<Rightarrow> real \<Rightarrow> real \<Rightarrow> engine \<Rightarrow> error + engine" where
  "executeSellLogic newPrice newTime fastMA' slowMA' prevFastMA prevSlowMA s =
     (case settings s of
        None \<Rightarrow> if openPositions s = [] then Inr s else Inl TypeError
      | Some st \<Rightarrow>
          (case positionToSell st newPrice fastMA' slowMA' prevFastMA prevSlowMA (openPositions s) of
             None \<Rightarrow> Inr s
           | Some (pos, reasonForSale, positionIndex) \<Rightarrow>
               (case account s of
                  None \<Rightarrow> Inl TypeError
                | Some acc \<Rightarrow>
                    let sellAmount = amount pos;
                        sellTrade = \<lparr>trade_id = tradeIdCounter s, trade_type = SELL,
                                     trade_price = newPrice, trade_time = newTime,
                                     amount = sellAmount, reason = reasonForSale\<rparr>;
                        s1 = s\<lparr>account := Some \<lparr>base = base acc - sellAmount,
                                                  quote = quote acc + sellAmount * newPrice\<rparr>,
                               tradeIdCounter := tradeIdCounter s + 1,
                               trades := trades s @ [sellTrade],
                               openPositions := splice1 positionIndex (openPositions s)\<rparr>;
                        s2 = (if telegramEnabled enableSellNotifications st
                              then sendTelegramNotification st ''sell'' s1 else s1);
                        s3 = (if isLive s2
                              then emit (PlaceOrder (tradingPair st) ''sell'' sellAmount) s2 else s2)
                    in Inr s3)))"

section \<open>Buy logic\<close>

text \<open>
  The division \<open>tradeAmountQuote / newPrice\<close> is the division of the reals; for a price of
  zero JavaScript yields Infinity, which the reals do not have (price points are positive).
\<close>

definition executeBuyLogic ::
  "real \<Rightarrow> int \<Rightarrow> real \<Rightarrow> real \<Rightarrow> real \<Rightarrow> real \<Rightarrow> jsnum \<Rightarrow> engine \<Rightarrow> error + engine" where
  "executeBuyLogic newPrice newTime fastMA' slowMA' prevFastMA prevSlowMA riskLine' s =
     (if fastMA' > slowMA' \<and> prevFastMA \<le> prevSlowMA
      then
        (case settings s of
           None \<Rightarrow> Inl TypeError
         | Some st \<Rightarrow>
             if length (openPositions s) < maxConcurrentPositions st
             then
               if truthy riskLine' \<and> newPrice < num riskLine'
               then
                 (case account s of
                    None \<Rightarrow> Inl TypeError
                  | Some acc \<Rightarrow>
                      let tradeAmountQuote = quote acc * (tradeAmountPercentage st / 100)
                      in if quote acc \<ge> tradeAmountQuote \<and> tradeAmountQuote > 1
                         then
                           let buyAmount = tradeAmountQuote / newPrice;
                               buyTrade = \<lparr>trade_id = tradeIdCounter s, trade_type = BUY,
                                           trade_price = newPrice, trade_time = newTime,
                                           amount = buyAmount, reason = ''MACD Crossover''\<rparr>;
                               s1 = s\<lparr>account := Some \<lparr>base = base acc + buyAmount,
                                                         quote = quote acc - tradeAmountQuote\<rparr>,
                                      tradeIdCounter := tradeIdCounter s + 1,
                                      openPositions := openPositions s @ [buyTrade],
                                      trades := trades s @ [buyTrade]\<rparr>;
                               s2 = (if telegramEnabled enableBuyNotifications st
                                     then sendTelegramNotification st ''buy'' s1 else s1);
                               s3 = (if isLive s2
                                     then emit (PlaceOrder (tradingPair st) ''buy'' buyAmount) s2
                                     else s2)
                           in Inr s3
                         else Inr s)
               else Inr s
             else Inr s)
      else Inr s)"

section \<open>executeTick\<close>

text \<open>\<^verbatim>\<open>backtestData && backtestData.length > 0\<close>: the replay series, if there is a non-empty one.\<close>

definition replaySeries :: "ChartDataPoint list option \<Rightarrow> ChartDataPoint list option" where
  "replaySeries bt = (case bt of None \<Rightarrow> None | Some d \<Rightarrow> if length d > 0 then Some d else None)"

text \<open>
  "Calculate indicators": the chart point of the tick, from the settings, the new price
  and the chart history before the tick.
\<close>

definition calculateIndicators ::
  "TradingSettings \<Rightarrow> real \<Rightarrow> int \<Rightarrow> ChartDataPoint list \<Rightarrow> ChartDataPoint" where
  "calculateIndicators st newPrice newTime chart =
     (let priceHistory = map price chart @ [newPrice];
          fastPeriod = Math_round (5 + (100 - dipsSensitivity st) * (45 / 100));
          slowPeriod = Math_round (15 + (100 - dipsSensitivity st) * (85 / 100));
          fastMA' = calculateSMA priceHistory fastPeriod fastPeriod;
          slowMA' = calculateSMA priceHistory slowPeriod slowPeriod;
          riskPeriod = 50;
          marketAverage = calculateSMA priceHistory riskPeriod 10;
          riskLine' = (if truthy marketAverage
                       then Num (num marketAverage * (1 + (riskLevel st - 50) / 200))
                       else Undefined)
      in \<lparr>time = newTime, price = newPrice, fastMA = fastMA', slowMA = slowMA',
          riskLine = riskLine'\<rparr>)"

text \<open>
  \<open>prevFastMA\<close> and \<open>prevSlowMA\<close>: the field of the second-to-last point of the chart
  history as it is before the new point is appended.
\<close>

definition prevMA :: "(ChartDataPoint \<Rightarrow> jsnum) \<Rightarrow> ChartDataPoint list \<Rightarrow> jsnum" where
  "prevMA field chart =
     (if length chart > 1 then field (chart ! (length chart - 2)) else Undefined)"

text \<open>"Update account value tracking"\<close>

definition trackAccountValue :: "real \<Rightarrow> engine \<Rightarrow> error + engine" where
  "trackAccountValue newPrice s =
     (case account s of
        None \<Rightarrow> Inl TypeError
      | Some acc \<Rightarrow>
          let accountValue = quote acc + base acc * newPrice;
              s1 = (if accountValue < lowestAccountValue s
                    then s\<lparr>lowestAccountValue := accountValue\<rparr> else s);
              s2 = (if accountValue > highestAccountValue s1
                    then s1\<lparr>highestAccountValue := accountValue\<rparr> else s1)
          in Inr s2)"

text \<open>
  The part of \<open>executeTick\<close> after the price has been obtained: indicators, chart history
  (the last 500 points), warm-up gate, sell logic, buy logic, watermarks, broadcast,
  release of the in-flight flag.
\<close>

definition processPrice :: "TradingSettings \<Rightarrow> real \<Rightarrow> int \<Rightarrow> engine \<Rightarrow> error + engine" where
  "processPrice st newPrice newTime s =
     (let newPoint = calculateIndicators st newPrice newTime (chartData s);
          prevFastMA = prevMA fastMA (chartData s);
          prevSlowMA = prevMA slowMA (chartData s);
          s1 = s\<lparr>chartData := slice_last 500 (chartData s @ [newPoint]), currentPrice := newPrice\<rparr>
      in if \<not> truthy (fastMA newPoint) \<or> \<not> truthy (slowMA newPoint) \<or>
            \<not> truthy prevFastMA \<or> \<not> truthy prevSlowMA
         then Inr (notifyUpdate s1)
         else
           (case executeSellLogic newPrice newTime (num (fastMA newPoint)) (num (slowMA newPoint))
                   (num prevFastMA) (num prevSlowMA) s1 of
              Inl e \<Rightarrow> Inl e
            | Inr s2 \<Rightarrow>
                (case executeBuyLogic newPrice newTime (num (fastMA newPoint))
                        (num (slowMA newPoint)) (num prevFastMA) (num prevSlowMA)
                        (riskLine newPoint) s2 of
                   Inl e \<Rightarrow> Inl e
                 | Inr s3 \<Rightarrow>
                     (case trackAccountValue newPrice s3 of
                        Inl e \<Rightarrow> Inl e
                      | Inr s4 \<Rightarrow>
                          let s5 = notifyUpdate s4
                          in Inr (if backtestData s = None
                                  then s5\<lparr>isProcessingTick := False\<rparr> else s5)))))"

text \<open>
  One invocation of \<open>executeTick\<close>, run to completion. In live mode \<open>fetched\<close> is the
  outcome of \<open>coinbaseService.getPrice\<close> (\<open>None\<close>: the promise was rejected) and \<open>now\<close> is
  \<open>Date.now()\<close>; a replay tick reads neither. The calls on the engine are taken one after
  the other, as the specification's single logical thread has them: an invocation has
  completed before the next call begins, and the interleavings that the awaits inside a
  tick would allow are not part of this model.
\<close>

definition executeTick :: "real option \<Rightarrow> int \<Rightarrow> engine \<Rightarrow> error + engine" where
  "executeTick fetched now s =
     (case settings s of
        None \<Rightarrow> Inr s
      | Some st \<Rightarrow>
          if \<not> isRunning s then Inr s
          else
            (case replaySeries (backtestData s) of
               Some d \<Rightarrow>
                 if backtestIndex s \<ge> length d then Inr (stop s)
                 else
                   let point = d ! backtestIndex s
                   in processPrice st (price point) (time point)
                        (s\<lparr>backtestIndex := backtestIndex s + 1\<rparr>)
             | None \<Rightarrow>
                 if isProcessingTick s then Inr s
                 else
                   (case fetched of
                      None \<Rightarrow>
                        Inr ((emit (LogError ''Error fetching price:'')
                               (emit (FetchPrice (tradingPair st))
                                  (s\<lparr>isProcessingTick := True\<rparr>)))
                             \<lparr>isProcessingTick := False\<rparr>)
                    | Some p \<Rightarrow>
                        processPrice st p now
                          (emit (FetchPrice (tradingPair st)) (s\<lparr>isProcessingTick := True\<rparr>)))))"

section \<open>start\<close>

definition intervalMap :: "string \<Rightarrow> real option" where
  "intervalMap = map_of
     [(''30m'', 30 * 60 * 1000), (''1h'', 60 * 60 * 1000), (''12h'', 12 * 60 * 60 * 1000),
      (''24h'', 24 * 60 * 60 * 1000), (''48h'', 48 * 60 * 60 * 1000)]"

text \<open>The second half of \<open>start\<close>, once an initial price is there: timers and first broadcast.\<close>

definition schedule :: "TradingSettings \<Rightarrow> ChartDataPoint list option \<Rightarrow> bool \<Rightarrow> engine \<Rightarrow> engine" where
  "schedule st bt live s =
     (let tickInterval =
            (case bt of
               Some d \<Rightarrow> if backtestSpeed st \<noteq> 0 then backtestSpeed st else 50
             | None \<Rightarrow>
                 (case granularity st of
                    None \<Rightarrow> 60000
                  | Some g \<Rightarrow> if g \<noteq> 0 then g * 1000 else 60000));
          s1 = s\<lparr>isRunning := True, isLive := live, tradingInterval := Some tickInterval\<rparr>;
          s2 = (if telegramEnabled enablePeriodicMessages st
                then
                  (case telegramSettings st of
                     None \<Rightarrow> s1
                   | Some tg \<Rightarrow>
                       s1\<lparr>periodicTelegramInterval :=
                            Some (case intervalMap (periodicMessageInterval tg) of
                                    Some i \<Rightarrow> i | None \<Rightarrow> 60 * 60 * 1000)\<rparr>)
                else s1)
      in notifyUpdate s2)"

definition start ::
  "TradingSettings \<Rightarrow> ChartDataPoint list option \<Rightarrow> bool \<Rightarrow> real option \<Rightarrow> int \<Rightarrow> engine \<Rightarrow> engine" where
  "start st bt live fetched now s =
     (if isRunning s then s
      else
        let s1 = s\<lparr>settings := Some st, backtestData := bt, backtestIndex := 0,
                   account := Some \<lparr>base = 0, quote = initialBalance st\<rparr>,
                   trades := [], openPositions := [], tradeIdCounter := 0,
                   lowestAccountValue := initialBalance st,
                   highestAccountValue := initialBalance st\<rparr>
        in (case replaySeries bt of
              Some d \<Rightarrow>
                schedule st bt live
                  (s1\<lparr>currentPrice := price (hd d), startPrice := price (hd d), chartData := []\<rparr>)
            | None \<Rightarrow>
                (case fetched of
                   Some p \<Rightarrow>
                     schedule st bt live
                       ((emit (FetchPrice (tradingPair st)) s1)
                          \<lparr>currentPrice := p, startPrice := p,
                           chartData := [\<lparr>time = now, price = p, fastMA = Undefined,
                                          slowMA = Undefined, riskLine = Undefined\<rparr>]\<rparr>)
                 | None \<Rightarrow>
                     emit (LogError ''Failed to start: Could not fetch initial price'')
                       (emit (FetchPrice (tradingPair st)) s1))))"

section \<open>Runs of the engine\<close>

text \<open>
  The calls the server and the tick timer make on the engine, one after the other. A tick
  that throws ends the run with the error. The periodic Telegram timer only reads the
  state and sends a message, so it is not an event of its own.
\<close>

datatype event =
    Start TradingSettings "ChartDataPoint list option" bool "real option" int
  | Stop
  | Tick "real option" int
  | UpdateSettings SettingsPatch
  | SetUpdateCallback

fun step :: "event \<Rightarrow> engine \<Rightarrow> error + engine" where
  "step (Start st bt live fetched now) s = Inr (start st bt live fetched now s)"
| "step Stop s = Inr (stop s)"
| "step (Tick fetched now) s = executeTick fetched now s"
| "step (UpdateSettings p) s = Inr (updateSettings p s)"
| "step SetUpdateCallback s = Inr (setUpdateCallback s)"

fun run :: "event list \<Rightarrow> engine \<Rightarrow> error + engine" where
  "run [] s = Inr s"
| "run (e # es) s = (case step e s of Inl err \<Rightarrow> Inl err | Inr s' \<Rightarrow> run es s')"

section \<open>A replay session used for concrete runs\<close>

text \<open>
  Settings inside the ranges of the settings form (sensitivity 100 gives the periods 5 and
  15, risk level 100 puts the risk line at 1.25 times the market average) and a replay
  series of 22 price points: sixteen at 100, then 101, 102, 97, 101, 115, 107.
\<close>

definition example_telegram :: TelegramSettings where
  "example_telegram =
     \<lparr>botToken = [], chatId = [], isTested = False, enablePeriodicMessages = False,
      periodicMessageInterval = ''1h'', enableErrorNotifications = False,
      enableBuyNotifications = False, enableSellNotifications = False\<rparr>"

definition example_settings :: TradingSettings where
  "example_settings =
     \<lparr>tradingPair = ''BTC-USD'', dipsSensitivity = 100, riskLevel = 100,
      stopLossPercentage = 5, sellTriggerPercentage = 1, initialBalance = 1000,
      tradeAmountPercentage = 20, maxConcurrentPositions = 5, backtestSpeed = 50,
      granularity = None, telegramSettings = Some example_telegram\<rparr>"

definition pricePoint :: "int \<Rightarrow> real \<Rightarrow> ChartDataPoint" where
  "pricePoint t p =
     \<lparr>time = t, price = p, fastMA = Undefined, slowMA = Undefined, riskLine = Undefined\<rparr>"

definition example_prices :: "real list" where
  "example_prices = replicate 16 100 @ [101, 102, 97, 101, 115, 107]"

definition example_replay :: "ChartDataPoint list" where
  "example_replay = map (\<lambda>(i, p). pricePoint (int i) p) (enumerate 0 example_prices)"

text \<open>The engine after \<open>start\<close> on the example replay and \<open>n\<close> ticks of the timer.\<close>

definition replay_run :: "nat \<Rightarrow> error + engine" where
  "replay_run n =
     run (Start example_settings (Some example_replay) False None 0 # replicate n (Tick None 0))
       TradingEngine_new"



section \<open>The position cap along a run\<close>

text \<open>The number of open positions is within \<open>maxConcurrentPositions\<close>.\<close>

definition withinCap :: "engine \<Rightarrow> bool" where
  "withinCap s =
     (case settings s of
        None \<Rightarrow> openPositions s = []
      | Some st \<Rightarrow> length (openPositions s) \<le> maxConcurrentPositions st)"

text \<open>
  No \<open>updateSettings\<close> call of the run sets the cap below the number of positions that are
  open at that moment.
\<close>

fun updatesKeepCap :: "event list \<Rightarrow> engine \<Rightarrow> bool" where
  "updatesKeepCap [] s = True"
| "updatesKeepCap (e # es) s =
     (case step e s of
        Inl err \<Rightarrow> True
      | Inr s' \<Rightarrow>
          (case e of UpdateSettings p \<Rightarrow> withinCap s' | _ \<Rightarrow> True) \<and> updatesKeepCap es s')"

text \<open>A patch that changes the cap only.\<close>

definition capPatch :: "nat \<Rightarrow> SettingsPatch" where
  "capPatch n =
     \<lparr>new_tradingPair = None, new_dipsSensitivity = None, new_riskLevel = None,
      new_stopLossPercentage = None, new_sellTriggerPercentage = None,
      new_initialBalance = None, new_tradeAmountPercentage = None,
      new_maxConcurrentPositions = Some n, new_backtestSpeed = None, new_granularity = None,
      new_telegramSettings = None\<rparr>"

section \<open>Properties of the indicator\<close>

lemma foldl_add_sum_list: "foldl (\<lambda>acc val. acc + val) a xs = a + sum_list (xs :: real list)"
  by (induction xs arbitrary: a) simp_all

lemma last_elements_drop: "last_elements n xs = drop (length xs - n) xs"
  by (simp add: last_elements_def rev_take)

lemma slice_last_pos: "0 < n \<Longrightarrow> slice_last n xs = last_elements (nat n) xs"
  by (simp add: slice_last_def last_elements_drop)

lemma calculateSMA_mean:
  "calculateSMA data period minPoints =
     (if int (length data) < minPoints then Undefined
      else arithmetic_mean (slice_last period data))"
  by (simp add: calculateSMA_def arithmetic_mean_def Let_def foldl_add_sum_list)

text \<open>
  C3. calculateSMA returns undefined exactly when the series has fewer than minPoints
  elements. Otherwise, for a positive period, it returns the arithmetic mean of the last
  period elements of the series, which is the mean of the whole series when the series
  is shorter than the period. The three sample calls of the specification evaluate to
  4, undefined and 1.5.
\<close>

theorem calculateSMA_spec:
  "(calculateSMA series period minPoints = Undefined \<longleftrightarrow> int (length series) < minPoints) \<and>
   (0 < period \<longrightarrow> minPoints \<le> int (length series) \<longrightarrow>
      calculateSMA series period minPoints = arithmetic_mean (last_elements (nat period) series)) \<and>
   (0 < period \<longrightarrow> minPoints \<le> int (length series) \<longrightarrow> int (length series) < period \<longrightarrow>
      calculateSMA series period minPoints = arithmetic_mean series) \<and>
   calculateSMA [1, 2, 3, 4, 5] 3 3 = Num 4 \<and>
   calculateSMA [1, 2] 3 3 = Undefined \<and>
   calculateSMA [1, 2] 3 2 = Num (3 / 2)"
proof -
  have absent: "calculateSMA series period minPoints = Undefined \<longleftrightarrow> int (length series) < minPoints"
    by (simp add: calculateSMA_mean arithmetic_mean_def)
  have mean_last: "calculateSMA series period minPoints = arithmetic_mean (last_elements (nat period) series)"
    if "0 < period" "minPoints \<le> int (length series)"
    using that by (simp add: calculateSMA_mean slice_last_pos)
  have mean_all: "calculateSMA series period minPoints = arithmetic_mean series"
    if "0 < period" "minPoints \<le> int (length series)" "int (length series) < period"
    using that by (simp add: calculateSMA_mean slice_last_def)
  have ex1: "calculateSMA [1, 2, 3, 4, 5] 3 3 = Num 4"
    by (simp add: calculateSMA_def slice_last_def)
  have ex2: "calculateSMA [1, 2] 3 3 = Undefined"
    by (simp add: calculateSMA_def)
  have ex3: "calculateSMA [1, 2] 3 2 = Num (3 / 2)"
    by (simp add: calculateSMA_def slice_last_def)
  from absent mean_last mean_all ex1 ex2 ex3 show ?thesis by blast
qed

theorem calculateSMA_spec_witness:
  "(0::int) < 3 \<and> (2::int) \<le> int (length [1, 2 :: real]) \<and> int (length [1, 2 :: real]) < 3 \<and>
   calculateSMA [1, 2] 3 2 = arithmetic_mean (last_elements (nat 3) [1, 2]) \<and>
   calculateSMA [1, 2] 3 2 = arithmetic_mean [1, 2] \<and>
   arithmetic_mean [1, 2] = Num (3 / 2)"
  using calculateSMA_spec [of "[1, 2]" 3 2] by (simp add: arithmetic_mean_def last_elements_def)

section \<open>What the sell and buy logic leave alone\<close>

lemma notifyUpdate_simps [simp]:
  "isRunning (notifyUpdate s) = isRunning s"
  "settings (notifyUpdate s) = settings s"
  "account (notifyUpdate s) = account s"
  "trades (notifyUpdate s) = trades s"
  "openPositions (notifyUpdate s) = openPositions s"
  "currentPrice (notifyUpdate s) = currentPrice s"
  "chartData (notifyUpdate s) = chartData s"
  "backtestData (notifyUpdate s) = backtestData s"
  "backtestIndex (notifyUpdate s) = backtestIndex s"
  "tradeIdCounter (notifyUpdate s) = tradeIdCounter s"
  "startPrice (notifyUpdate s) = startPrice s"
  "isLive (notifyUpdate s) = isLive s"
  "isProcessingTick (notifyUpdate s) = isProcessingTick s"
  "tradingInterval (notifyUpdate s) = tradingInterval s"
  "periodicTelegramInterval (notifyUpdate s) = periodicTelegramInterval s"
  "updateCallback (notifyUpdate s) = updateCallback s"
  by (simp_all add: notifyUpdate_def emit_def)

lemma executeSellLogic_unchanged:
  "executeSellLogic p t f sl pf ps s = Inr s' \<Longrightarrow>
   isRunning s' = isRunning s \<and> settings s' = settings s \<and> currentPrice s' = currentPrice s \<and>
   chartData s' = chartData s \<and> backtestData s' = backtestData s \<and>
   backtestIndex s' = backtestIndex s \<and> startPrice s' = startPrice s \<and>
   lowestAccountValue s' = lowestAccountValue s \<and> highestAccountValue s' = highestAccountValue s \<and>
   isLive s' = isLive s \<and> isProcessingTick s' = isProcessingTick s \<and>
   tradingInterval s' = tradingInterval s \<and>
   periodicTelegramInterval s' = periodicTelegramInterval s \<and> updateCallback s' = updateCallback s"
  by (auto simp: executeSellLogic_def Let_def sendTelegramNotification_def emit_def
      split: option.splits prod.splits if_splits)

lemma executeBuyLogic_unchanged:
  "executeBuyLogic p t f sl pf ps rl s = Inr s' \<Longrightarrow>
   isRunning s' = isRunning s \<and> settings s' = settings s \<and> currentPrice s' = currentPrice s \<and>
   chartData s' = chartData s \<and> backtestData s' = backtestData s \<and>
   backtestIndex s' = backtestIndex s \<and> startPrice s' = startPrice s \<and>
   lowestAccountValue s' = lowestAccountValue s \<and> highestAccountValue s' = highestAccountValue s \<and>
   isLive s' = isLive s \<and> isProcessingTick s' = isProcessingTick s \<and>
   tradingInterval s' = tradingInterval s \<and>
   periodicTelegramInterval s' = periodicTelegramInterval s \<and> updateCallback s' = updateCallback s"
  by (auto simp: executeBuyLogic_def Let_def sendTelegramNotification_def emit_def
      split: option.splits prod.splits if_splits)

lemma trackAccountValue_unchanged:
  "trackAccountValue p s = Inr s' \<Longrightarrow>
   isRunning s' = isRunning s \<and> settings s' = settings s \<and> currentPrice s' = currentPrice s \<and>
   chartData s' = chartData s \<and> backtestData s' = backtestData s \<and>
   backtestIndex s' = backtestIndex s \<and> startPrice s' = startPrice s \<and>
   isLive s' = isLive s \<and> isProcessingTick s' = isProcessingTick s \<and>
   tradingInterval s' = tradingInterval s \<and>
   periodicTelegramInterval s' = periodicTelegramInterval s \<and> updateCallback s' = updateCallback s \<and>
   account s' = account s \<and> trades s' = trades s \<and> openPositions s' = openPositions s \<and>
   tradeIdCounter s' = tradeIdCounter s \<and> effects s' = effects s"
  by (auto simp: trackAccountValue_def Let_def split: option.splits if_splits)

lemma executeSellLogic_length:
  "executeSellLogic p t f sl pf ps s = Inr s' \<Longrightarrow>
   length (openPositions s') \<le> length (openPositions s)"
  by (auto simp: executeSellLogic_def Let_def sendTelegramNotification_def emit_def splice1_def
      split: option.splits prod.splits if_splits)

lemma executeBuyLogic_length:
  "executeBuyLogic p t f sl pf ps rl s = Inr s' \<Longrightarrow> settings s = Some st \<Longrightarrow>
   length (openPositions s') \<le> max (length (openPositions s)) (maxConcurrentPositions st)"
  by (auto simp: executeBuyLogic_def Let_def sendTelegramNotification_def emit_def
      split: option.splits prod.splits if_splits)

text \<open>With settings and an account in place neither step throws, and the account stays.\<close>

lemma executeSellLogic_ok:
  "settings s = Some st \<Longrightarrow> account s = Some acc \<Longrightarrow>
   \<exists>s'. executeSellLogic p t f sl pf ps s = Inr s' \<and> account s' \<noteq> None"
  by (auto simp: executeSellLogic_def Let_def sendTelegramNotification_def emit_def
      split: option.splits prod.splits if_splits)

lemma executeBuyLogic_ok:
  "settings s = Some st \<Longrightarrow> account s = Some acc \<Longrightarrow>
   \<exists>s'. executeBuyLogic p t f sl pf ps rl s = Inr s' \<and> account s' \<noteq> None"
  by (auto simp: executeBuyLogic_def Let_def sendTelegramNotification_def emit_def
      split: option.splits prod.splits if_splits)

section \<open>The shape of a completed tick\<close>

lemma processPrice_cases:
  assumes "processPrice st p t s = Inr s'"
  obtains (warmup)
      "s' = notifyUpdate
              (s\<lparr>chartData := slice_last 500 (chartData s @ [calculateIndicators st p t (chartData s)]),
                 currentPrice := p\<rparr>)"
  | (traded) f sl pf ps rl s2 s3 s4 where
      "executeSellLogic p t f sl pf ps
         (s\<lparr>chartData := slice_last 500 (chartData s @ [calculateIndicators st p t (chartData s)]),
            currentPrice := p\<rparr>) = Inr s2"
      "executeBuyLogic p t f sl pf ps rl s2 = Inr s3"
      "trackAccountValue p s3 = Inr s4"
      "s' = (if backtestData s = None then (notifyUpdate s4)\<lparr>isProcessingTick := False\<rparr>
             else notifyUpdate s4)"
  using assms unfolding processPrice_def Let_def
  by (auto split: if_splits sum.splits)

lemma processPrice_unchanged:
  assumes "processPrice st p t s = Inr s'"
  shows "isRunning s' = isRunning s \<and> settings s' = settings s \<and>
   backtestData s' = backtestData s \<and> backtestIndex s' = backtestIndex s \<and>
   startPrice s' = startPrice s \<and> isLive s' = isLive s \<and>
   tradingInterval s' = tradingInterval s \<and>
   periodicTelegramInterval s' = periodicTelegramInterval s \<and> updateCallback s' = updateCallback s \<and>
   currentPrice s' = p \<and>
   chartData s' = slice_last 500 (chartData s @ [calculateIndicators st p t (chartData s)])"
  using assms
proof (cases rule: processPrice_cases)
  case warmup
  then show ?thesis by simp
next
  case (traded f sl pf ps rl s2 s3 s4)
  from executeSellLogic_unchanged [OF traded(1)] executeBuyLogic_unchanged [OF traded(2)]
    trackAccountValue_unchanged [OF traded(3)] traded(4)
  show ?thesis by (simp split: if_splits)
qed

lemma processPrice_ok:
  assumes "settings s = Some st'" and "account s \<noteq> None"
  shows "\<exists>s'. processPrice st p t s = Inr s' \<and> account s' \<noteq> None"
proof -
  let ?s1 = "s\<lparr>chartData := slice_last 500 (chartData s @ [calculateIndicators st p t (chartData s)]),
               currentPrice := p\<rparr>"
  let ?f = "num (fastMA (calculateIndicators st p t (chartData s)))"
  let ?sl = "num (slowMA (calculateIndicators st p t (chartData s)))"
  let ?pf = "num (prevMA fastMA (chartData s))"
  let ?ps = "num (prevMA slowMA (chartData s))"
  let ?rl = "riskLine (calculateIndicators st p t (chartData s))"
  from assms obtain acc where acc: "account ?s1 = Some acc" by auto
  from assms have st1: "settings ?s1 = Some st'" by simp
  from executeSellLogic_ok [OF st1 acc]
  obtain s2 where s2: "executeSellLogic p t ?f ?sl ?pf ?ps ?s1 = Inr s2" "account s2 \<noteq> None"
    by blast
  from executeSellLogic_unchanged [OF s2(1)] st1 have st2: "settings s2 = Some st'" by simp
  from s2(2) obtain acc2 where acc2: "account s2 = Some acc2" by auto
  from executeBuyLogic_ok [OF st2 acc2]
  obtain s3 where s3: "executeBuyLogic p t ?f ?sl ?pf ?ps ?rl s2 = Inr s3" "account s3 \<noteq> None"
    by blast
  from s3(2) obtain s4 where s4: "trackAccountValue p s3 = Inr s4" "account s4 \<noteq> None"
    by (auto simp: trackAccountValue_def Let_def)
  show ?thesis
    using assms(2) s2(1) s3(1) s4 by (simp add: processPrice_def Let_def)
qed

lemma price_calculateIndicators [simp]:
  "price (calculateIndicators st p t c) = p" "time (calculateIndicators st p t c) = t"
  by (simp_all add: calculateIndicators_def Let_def)

lemma map_slice_last: "map f (slice_last n xs) = slice_last n (map f xs)"
  by (simp add: slice_last_def drop_map)

section \<open>stop\<close>

text \<open>
  C10. stop is idempotent: a second stop changes nothing, and stop on an engine that is
  not running returns the state as it is.
\<close>

theorem stop_idempotent:
  "stop (stop s) = stop s \<and> (\<not> isRunning s \<longrightarrow> stop s = s)"
  by (simp add: stop_def notifyUpdate_def emit_def)

theorem stop_idempotent_witness:
  "\<not> isRunning TradingEngine_new \<and> stop TradingEngine_new = TradingEngine_new \<and>
   stop (stop TradingEngine_new) = stop TradingEngine_new"
  using stop_idempotent [of TradingEngine_new] by (simp add: TradingEngine_new_def)

section \<open>Replay: every point of the series, then stop\<close>

lemma slice_last_append_slice:
  assumes "0 < n"
  shows "slice_last n (slice_last n xs @ ys) = slice_last n (xs @ ys)"
proof (cases "length xs \<le> nat n")
  case True
  with assms show ?thesis by (simp add: slice_last_def)
next
  case False
  with assms show ?thesis by (simp add: slice_last_def add.commute)
qed

lemma length_slice_last: "0 < n \<Longrightarrow> length (slice_last n xs) \<le> nat n"
  by (simp add: slice_last_def)

lemma slice_last_short: "0 < n \<Longrightarrow> length xs \<le> nat n \<Longrightarrow> slice_last n xs = xs"
  by (simp add: slice_last_def)

lemma executeTick_replay:
  assumes "isRunning s" "settings s = Some st" "account s \<noteq> None"
    "backtestData s = Some d" "backtestIndex s < length d"
  shows "\<exists>s'. executeTick fetched now s = Inr s' \<and> isRunning s' \<and> settings s' = Some st \<and>
           account s' \<noteq> None \<and> backtestData s' = Some d \<and>
           backtestIndex s' = Suc (backtestIndex s) \<and>
           currentPrice s' = price (d ! backtestIndex s) \<and>
           map price (chartData s') = slice_last 500 (map price (chartData s) @ [price (d ! backtestIndex s)])"
proof -
  let ?s0 = "s\<lparr>backtestIndex := backtestIndex s + 1\<rparr>"
  let ?p = "price (d ! backtestIndex s)" and ?t = "time (d ! backtestIndex s)"
  from assms have "settings ?s0 = Some st" "account ?s0 \<noteq> None" by simp_all
  from processPrice_ok [OF this, of st ?p ?t]
  obtain s' where s': "processPrice st ?p ?t ?s0 = Inr s'" "account s' \<noteq> None" by blast
  from assms(5) have "d \<noteq> []" by auto
  with assms s'(1) have tick: "executeTick fetched now s = Inr s'"
    by (simp add: executeTick_def replaySeries_def Let_def)
  from processPrice_unchanged [OF s'(1)] assms s'(2) tick
  show ?thesis by (simp add: map_slice_last)
qed

lemma executeTick_exhausted:
  assumes "isRunning s" "settings s = Some st" "backtestData s = Some d" "d \<noteq> []"
    "backtestIndex s \<ge> length d"
  shows "executeTick fetched now s = Inr (stop s)"
  using assms by (simp add: executeTick_def replaySeries_def)

lemma replay_ticks:
  assumes "isRunning s" "settings s = Some st" "account s \<noteq> None" "backtestData s = Some d"
    "backtestIndex s + length ws \<le> length d" "length (chartData s) \<le> 500"
  shows "\<exists>s'. run (map (\<lambda>(fetched, now). Tick fetched now) ws) s = Inr s' \<and> isRunning s' \<and>
           settings s' = Some st \<and> account s' \<noteq> None \<and> backtestData s' = Some d \<and>
           backtestIndex s' = backtestIndex s + length ws \<and>
           map price (chartData s') =
             slice_last 500 (map price (chartData s) @
                               map price (take (length ws) (drop (backtestIndex s) d)))"
  using assms
proof (induction ws arbitrary: s)
  case Nil
  then show ?case by (simp add: slice_last_short)
next
  case (Cons w ws)
  obtain fetched now where w: "w = (fetched, now)" by (cases w)
  from Cons.prems have lt: "backtestIndex s < length d" by simp
  from executeTick_replay [OF Cons.prems(1-4) lt, of fetched now]
  obtain s1 where s1: "executeTick fetched now s = Inr s1" "isRunning s1" "settings s1 = Some st"
    "account s1 \<noteq> None" "backtestData s1 = Some d" "backtestIndex s1 = Suc (backtestIndex s)"
    "map price (chartData s1) = slice_last 500 (map price (chartData s) @ [price (d ! backtestIndex s)])"
    by blast
  from Cons.prems s1(6) have le: "backtestIndex s1 + length ws \<le> length d" by simp
  from s1(7) have "length (map price (chartData s1)) \<le> 500"
    using length_slice_last [of 500] by simp
  then have len1: "length (chartData s1) \<le> 500" by simp
  from Cons.IH [OF s1(2-5) le len1]
  obtain s' where s': "run (map (\<lambda>(fetched, now). Tick fetched now) ws) s1 = Inr s'"
    "isRunning s'" "settings s' = Some st" "account s' \<noteq> None" "backtestData s' = Some d"
    "backtestIndex s' = backtestIndex s1 + length ws"
    "map price (chartData s') =
       slice_last 500 (map price (chartData s1) @ map price (take (length ws) (drop (backtestIndex s1) d)))"
    by blast
  have "take (length (w # ws)) (drop (backtestIndex s) d) =
        d ! backtestIndex s # take (length ws) (drop (Suc (backtestIndex s)) d)"
    using lt by (simp add: Cons_nth_drop_Suc [symmetric])
  with s'(7) s1(6,7) have "map price (chartData s') =
      slice_last 500 (map price (chartData s) @ map price (take (length (w # ws)) (drop (backtestIndex s) d)))"
    by (simp add: slice_last_append_slice)
  with s1(1) s' s1(6) w show ?case by simp
qed


lemma start_replay:
  assumes "d \<noteq> []" "\<not> isRunning s0"
  shows "isRunning (start st (Some d) live fetched now s0) \<and>
         settings (start st (Some d) live fetched now s0) = Some st \<and>
         account (start st (Some d) live fetched now s0) = Some \<lparr>base = 0, quote = initialBalance st\<rparr> \<and>
         backtestData (start st (Some d) live fetched now s0) = Some d \<and>
         backtestIndex (start st (Some d) live fetched now s0) = 0 \<and>
         chartData (start st (Some d) live fetched now s0) = [] \<and>
         trades (start st (Some d) live fetched now s0) = [] \<and>
         openPositions (start st (Some d) live fetched now s0) = [] \<and>
         tradeIdCounter (start st (Some d) live fetched now s0) = 0"
  using assms
  by (simp add: start_def replaySeries_def schedule_def Let_def split: option.splits)

text \<open>
  C5. A replay series of length N >= 1: after start, each of the first N ticks completes
  without throwing, leaves the engine running and consumes exactly the next point of the
  series (the chart history holds the prices of the points consumed so far, cut to the
  last 500). The tick after the N-th finds the index at N, calls stop and returns: the
  engine is idle, the timer is cleared, and index, chart history, current price, trades,
  positions and account are what they were.
\<close>

theorem replay_exhaustion:
  assumes "d \<noteq> []" and "\<not> isRunning s0" and "length ws \<le> length d"
  shows "\<exists>s. run (map (\<lambda>(fetched, now). Tick fetched now) ws)
                (start st (Some d) live fetched0 now0 s0) = Inr s \<and>
              isRunning s \<and> backtestIndex s = length ws \<and>
              map price (chartData s) = slice_last 500 (map price (take (length ws) d)) \<and>
              (length ws = length d \<longrightarrow>
                 executeTick fetched now s = Inr (stop s) \<and> \<not> isRunning (stop s) \<and>
                 tradingInterval (stop s) = None \<and>
                 backtestIndex (stop s) = length d \<and> chartData (stop s) = chartData s \<and>
                 currentPrice (stop s) = currentPrice s \<and> trades (stop s) = trades s \<and>
                 openPositions (stop s) = openPositions s \<and> account (stop s) = account s)"
proof -
  let ?s1 = "start st (Some d) live fetched0 now0 s0"
  note init = start_replay [OF assms(1,2), of st live fetched0 now0]
  from init assms(3)
  have "\<exists>s'. run (map (\<lambda>(fetched, now). Tick fetched now) ws) ?s1 = Inr s' \<and> isRunning s' \<and>
           settings s' = Some st \<and> account s' \<noteq> None \<and> backtestData s' = Some d \<and>
           backtestIndex s' = backtestIndex ?s1 + length ws \<and>
           map price (chartData s') =
             slice_last 500 (map price (chartData ?s1) @
                               map price (take (length ws) (drop (backtestIndex ?s1) d)))"
    by (intro replay_ticks) simp_all
  then obtain s where s: "run (map (\<lambda>(fetched, now). Tick fetched now) ws) ?s1 = Inr s"
    "isRunning s" "settings s = Some st" "backtestData s = Some d"
    "backtestIndex s = length ws"
    "map price (chartData s) = slice_last 500 (map price (take (length ws) d))"
    using init by auto
  have "executeTick fetched now s = Inr (stop s)" if "length ws = length d"
    using executeTick_exhausted [OF s(2,3,4) assms(1)] s(5) that by simp
  moreover have "\<not> isRunning (stop s) \<and> tradingInterval (stop s) = None \<and>
      backtestIndex (stop s) = backtestIndex s \<and> chartData (stop s) = chartData s \<and>
      currentPrice (stop s) = currentPrice s \<and> trades (stop s) = trades s \<and>
      openPositions (stop s) = openPositions s \<and> account (stop s) = account s"
    using s(2) by (simp add: stop_def)
  ultimately show ?thesis using s by auto
qed

theorem replay_exhaustion_witness:
  "(case run (map (\<lambda>(fetched, now). Tick fetched now) [(None, 0), (None, 0)])
           (start example_settings (Some [pricePoint 0 100, pricePoint 1 101]) False None 0
              TradingEngine_new) of
      Inl e \<Rightarrow> False
    | Inr s \<Rightarrow> isRunning s \<and> backtestIndex s = 2 \<and> map price (chartData s) = [100, 101] \<and>
        executeTick None 0 s = Inr (stop s) \<and> \<not> isRunning (stop s) \<and>
        chartData (stop s) = chartData s)"
proof -
  have d: "[pricePoint 0 100, pricePoint 1 101] \<noteq> []" by simp
  have idle: "\<not> isRunning TradingEngine_new" by (simp add: TradingEngine_new_def)
  have len: "length [(None :: real option, 0 :: int), (None, 0)] \<le> length [pricePoint 0 100, pricePoint 1 101]"
    by simp
  from replay_exhaustion [OF d idle len, of example_settings False None 0 None 0]
  show ?thesis by (auto simp: slice_last_def pricePoint_def)
qed

section \<open>The position cap\<close>

lemma processPrice_length:
  assumes "processPrice st' p t s = Inr s'" and "settings s = Some st"
  shows "length (openPositions s') \<le> max (length (openPositions s)) (maxConcurrentPositions st)"
  using assms(1)
proof (cases rule: processPrice_cases)
  case warmup
  then show ?thesis by simp
next
  case (traded f sl pf ps rl s2 s3 s4)
  from executeSellLogic_unchanged [OF traded(1)] assms(2) have st2: "settings s2 = Some st" by simp
  from executeSellLogic_length [OF traded(1)]
  have "length (openPositions s2) \<le> length (openPositions s)" by simp
  moreover from executeBuyLogic_length [OF traded(2) st2]
  have "length (openPositions s3) \<le> max (length (openPositions s2)) (maxConcurrentPositions st)" .
  moreover from trackAccountValue_unchanged [OF traded(3)] traded(4)
  have "openPositions s' = openPositions s3" by (simp split: if_splits)
  ultimately show ?thesis by simp
qed

lemma executeTick_length:
  assumes "executeTick fetched now s = Inr s'" and "settings s = Some st"
  shows "length (openPositions s') \<le> max (length (openPositions s)) (maxConcurrentPositions st) \<and>
         settings s' = Some st"
proof -
  have "length (openPositions s') \<le> max (length (openPositions s)) (maxConcurrentPositions st)"
    using assms
    by (auto simp: executeTick_def stop_def emit_def Let_def
        split: option.splits if_splits dest!: processPrice_length)
  moreover have "settings s' = Some st"
    using assms
    by (auto simp: executeTick_def stop_def emit_def Let_def
        split: option.splits if_splits dest!: processPrice_unchanged)
  ultimately show ?thesis ..
qed

lemma executeTick_settings_None:
  "settings s = None \<Longrightarrow> executeTick fetched now s = Inr s"
  by (simp add: executeTick_def)

lemma start_withinCap: "withinCap s \<Longrightarrow> withinCap (start st bt live fetched now s)"
  by (simp add: start_def schedule_def withinCap_def Let_def emit_def split: option.splits)

lemma stop_withinCap: "withinCap s \<Longrightarrow> withinCap (stop s)"
  by (simp add: stop_def withinCap_def split: option.splits)

lemma executeTick_withinCap:
  assumes "executeTick fetched now s = Inr s'" and "withinCap s"
  shows "withinCap s'"
proof (cases "settings s")
  case None
  with assms executeTick_settings_None [of s fetched now] show ?thesis by simp
next
  case (Some st)
  from executeTick_length [OF assms(1) Some] assms(2) Some show ?thesis
    by (simp add: withinCap_def)
qed

lemma run_withinCap:
  "withinCap s \<Longrightarrow> updatesKeepCap evs s \<Longrightarrow> run evs s = Inr s' \<Longrightarrow> withinCap s'"
proof (induction evs arbitrary: s)
  case Nil
  then show ?case by simp
next
  case (Cons e evs)
  from Cons.prems(3) obtain s1 where s1: "step e s = Inr s1" "run evs s1 = Inr s'"
    by (auto split: sum.splits)
  from Cons.prems(2) s1(1) have keep: "updatesKeepCap evs s1" by simp
  have "withinCap s1"
  proof (cases e)
    case (Start st bt live fetched now)
    with s1(1) Cons.prems(1) show ?thesis by (auto simp: start_withinCap)
  next
    case Stop
    with s1(1) Cons.prems(1) show ?thesis by (auto simp: stop_withinCap)
  next
    case (Tick fetched now)
    with s1(1) Cons.prems(1) show ?thesis by (auto dest: executeTick_withinCap)
  next
    case (UpdateSettings p)
    with Cons.prems(2) s1(1) show ?thesis by simp
  next
    case SetUpdateCallback
    with s1(1) Cons.prems(1) show ?thesis by (auto simp: setUpdateCallback_def withinCap_def split: option.splits)
  qed
  from Cons.IH [OF this keep s1(2)] show ?case .
qed

text \<open>
  C4 (amended). In every run of the engine from its construction in which no updateSettings call
  sets maxConcurrentPositions below the number of positions open at that moment, the
  number of open positions is at most maxConcurrentPositions after every call, in
  particular after every executeTick. In any state at all, a tick leaves at most
  max (positions open before the tick) maxConcurrentPositions positions open: it opens
  none at or above the cap, and it does not close positions to enforce a lowered cap.
\<close>

theorem open_positions_within_cap:
  "(updatesKeepCap evs TradingEngine_new \<longrightarrow> run evs TradingEngine_new = Inr s \<longrightarrow> withinCap s) \<and>
   (executeTick fetched now s1 = Inr s2 \<longrightarrow> settings s1 = Some st \<longrightarrow>
      length (openPositions s2) \<le> max (length (openPositions s1)) (maxConcurrentPositions st) \<and>
      settings s2 = Some st)"
proof -
  have "withinCap TradingEngine_new" by (simp add: withinCap_def TradingEngine_new_def)
  then show ?thesis using run_withinCap executeTick_length by blast
qed

theorem open_positions_within_cap_witness:
  "updatesKeepCap (Start example_settings (Some example_replay) False None 0 # replicate 18 (Tick None 0) @ [UpdateSettings (capPatch 2), Tick None 0]) TradingEngine_new \<and>
   (case run (Start example_settings (Some example_replay) False None 0 # replicate 18 (Tick None 0) @ [UpdateSettings (capPatch 2), Tick None 0]) TradingEngine_new of
      Inl e \<Rightarrow> False
    | Inr s \<Rightarrow> withinCap s \<and> length (openPositions s) = 2 \<and>
              map_option maxConcurrentPositions (settings s) = Some 2)"
proof -
  let ?evs = "Start example_settings (Some example_replay) False None 0 # replicate 18 (Tick None 0) @ [UpdateSettings (capPatch 2), Tick None 0]"
  have keep: "updatesKeepCap ?evs TradingEngine_new" by code_simp
  have "case run ?evs TradingEngine_new of Inl e \<Rightarrow> False
        | Inr s \<Rightarrow> length (openPositions s) = 2 \<and> map_option maxConcurrentPositions (settings s) = Some 2"
    by code_simp
  then obtain s where s: "run ?evs TradingEngine_new = Inr s" "length (openPositions s) = 2"
    "map_option maxConcurrentPositions (settings s) = Some 2"
    by (auto split: sum.splits)
  from open_positions_within_cap [of ?evs s] keep s(1) have "withinCap s" by blast
  with keep s show ?thesis by simp
qed

text \<open>
  Counterexample to C4 as stated. The example replay has two positions open after 18
  ticks; updateSettings then lowers the cap from 5 to 1, and after the 19th tick the two
  positions are still open.
\<close>

theorem lowered_cap_not_enforced:
  "(case run (Start example_settings (Some example_replay) False None 0 # replicate 18 (Tick None 0) @ [UpdateSettings (capPatch 1), Tick None 0]) TradingEngine_new of
      Inl e \<Rightarrow> False
    | Inr s \<Rightarrow> isRunning s \<and> backtestIndex s = 19 \<and> length (openPositions s) = 2 \<and>
              map_option maxConcurrentPositions (settings s) = Some 1 \<and> \<not> withinCap s)"
  by code_simp

section \<open>Trade ids\<close>

lemma executeSellLogic_ids:
  "executeSellLogic p t f sl pf ps s = Inr s' \<Longrightarrow>
   map trade_id (trades s) = [0..<tradeIdCounter s] \<Longrightarrow>
   map trade_id (trades s') = [0..<tradeIdCounter s']"
  by (auto simp: executeSellLogic_def Let_def sendTelegramNotification_def emit_def
      split: option.splits prod.splits if_splits)

lemma executeBuyLogic_ids:
  "executeBuyLogic p t f sl pf ps rl s = Inr s' \<Longrightarrow>
   map trade_id (trades s) = [0..<tradeIdCounter s] \<Longrightarrow>
   map trade_id (trades s') = [0..<tradeIdCounter s']"
  by (auto simp: executeBuyLogic_def Let_def sendTelegramNotification_def emit_def
      split: option.splits prod.splits if_splits)

lemma processPrice_ids:
  assumes "processPrice st p t s = Inr s'"
    and "map trade_id (trades s) = [0..<tradeIdCounter s]"
  shows "map trade_id (trades s') = [0..<tradeIdCounter s']"
  using assms(1)
proof (cases rule: processPrice_cases)
  case warmup
  with assms(2) show ?thesis by simp
next
  case (traded f sl pf ps rl s2 s3 s4)
  from executeSellLogic_ids [OF traded(1)] assms(2)
  have "map trade_id (trades s2) = [0..<tradeIdCounter s2]" by simp
  from executeBuyLogic_ids [OF traded(2) this]
  have "map trade_id (trades s3) = [0..<tradeIdCounter s3]" .
  with trackAccountValue_unchanged [OF traded(3)] traded(4)
  show ?thesis by (simp split: if_splits)
qed

lemma executeTick_ids:
  assumes "executeTick fetched now s = Inr s'"
    and "map trade_id (trades s) = [0..<tradeIdCounter s]"
  shows "map trade_id (trades s') = [0..<tradeIdCounter s']"
  using assms
  by (auto simp: executeTick_def stop_def emit_def Let_def
      split: option.splits if_splits dest!: processPrice_ids)

lemma start_ids:
  "map trade_id (trades s) = [0..<tradeIdCounter s] \<Longrightarrow>
   map trade_id (trades (start st bt live fetched now s)) =
     [0..<tradeIdCounter (start st bt live fetched now s)]"
  by (simp add: start_def schedule_def Let_def emit_def split: option.splits)

lemma step_ids:
  assumes "step e s = Inr s'" and "map trade_id (trades s) = [0..<tradeIdCounter s]"
  shows "map trade_id (trades s') = [0..<tradeIdCounter s']"
proof (cases e)
  case (Start st bt live fetched now)
  with assms show ?thesis by (auto simp: start_ids)
next
  case Stop
  with assms show ?thesis by (auto simp: stop_def)
next
  case (Tick fetched now)
  with assms show ?thesis by (auto dest: executeTick_ids)
next
  case (UpdateSettings p)
  with assms show ?thesis by (auto simp: updateSettings_def)
next
  case SetUpdateCallback
  with assms show ?thesis by (auto simp: setUpdateCallback_def)
qed

lemma run_ids:
  "run evs s = Inr s' \<Longrightarrow> map trade_id (trades s) = [0..<tradeIdCounter s] \<Longrightarrow>
   map trade_id (trades s') = [0..<tradeIdCounter s']"
proof (induction evs arbitrary: s)
  case Nil
  then show ?case by simp
next
  case (Cons e evs)
  from Cons.prems(1) obtain s1 where s1: "step e s = Inr s1" "run evs s1 = Inr s'"
    by (auto split: sum.splits)
  from Cons.IH [OF s1(2) step_ids [OF s1(1) Cons.prems(2)]] show ?case .
qed

text \<open>
  C8 (amended). Trade ids come from tradeIdCounter, which start resets to 0 together with the
  trade log. In every state the engine reaches, the trades of the log carry the ids
  0, 1, ..., tradeIdCounter - 1 in order, so any two trades of one run (from a start to
  the next start) have distinct ids. Trades of different runs are not covered: each run
  numbers its trades from 0 again.
\<close>

theorem trade_ids_unique_within_run:
  "run evs TradingEngine_new = Inr s \<Longrightarrow>
   map trade_id (trades s) = [0..<tradeIdCounter s] \<and> distinct (map trade_id (trades s))"
proof -
  assume r: "run evs TradingEngine_new = Inr s"
  have "map trade_id (trades TradingEngine_new) = [0..<tradeIdCounter TradingEngine_new]"
    by (simp add: TradingEngine_new_def)
  from run_ids [OF r this] show ?thesis by simp
qed

theorem trade_ids_unique_within_run_witness:
  "(case replay_run 22 of
      Inl e \<Rightarrow> False
    | Inr s \<Rightarrow> map trade_id (trades s) = [0, 1, 2, 3, 4] \<and> tradeIdCounter s = 5 \<and>
              distinct (map trade_id (trades s)))"
proof -
  have "case replay_run 22 of Inl e \<Rightarrow> False | Inr s \<Rightarrow> tradeIdCounter s = 5"
    by code_simp
  then obtain s where s: "replay_run 22 = Inr s" "tradeIdCounter s = 5"
    by (auto split: sum.splits)
  from trade_ids_unique_within_run [OF s(1) [unfolded replay_run_def]]
  have "map trade_id (trades s) = [0..<tradeIdCounter s] \<and> distinct (map trade_id (trades s))" .
  with s show ?thesis by (simp add: upt_rec)
qed

text \<open>
  Counterexample to C8 as stated. Two runs in one process: the first buys at 101 on its 17th tick and is stopped; the
  second, on a series that ends in 102, buys at 102 on its 17th tick. The two trades are
  different and both have id 0.
\<close>

theorem trade_id_reused_after_restart:
  "(case replay_run 17 of
      Inl e \<Rightarrow> False
    | Inr s1 \<Rightarrow>
        (case run (Stop #
                   Start example_settings
                     (Some (map (pricePoint 0) (replicate 16 100 @ [102]))) False None 0 #
                   replicate 17 (Tick None 0)) s1 of
           Inl e \<Rightarrow> False
         | Inr s2 \<Rightarrow>
             map trade_id (trades s1) = [0] \<and> map trade_price (trades s1) = [101] \<and>
             map trade_id (trades s2) = [0] \<and> map trade_price (trades s2) = [102] \<and>
             trade_id (hd (trades s1)) = trade_id (hd (trades s2)) \<and>
             hd (trades s1) \<noteq> hd (trades s2)))"
  by code_simp

section \<open>Conservation\<close>

lemma executeBuyLogic_conservation:
  assumes "executeBuyLogic p t f sl pf ps rl s = Inr s'" and "p \<noteq> 0"
  shows "s' = s \<or>
     (\<exists>tr a a'. account s = Some a \<and> account s' = Some a' \<and>
        trades s' = trades s @ [tr] \<and> openPositions s' = openPositions s @ [tr] \<and>
        trade_type tr = BUY \<and> trade_price tr = p \<and>
        quote a' - quote a = - (amount tr * trade_price tr) \<and>
        base a' - base a = amount tr \<and>
        quote a' + base a' * trade_price tr = quote a + base a * trade_price tr)"
  using assms
  by (auto simp: executeBuyLogic_def Let_def sendTelegramNotification_def emit_def algebra_simps
      split: option.splits if_splits)

lemma executeSellLogic_conservation:
  assumes "executeSellLogic p t f sl pf ps s = Inr s'"
  shows "s' = s \<or>
     (\<exists>tr a a'. account s = Some a \<and> account s' = Some a' \<and>
        trades s' = trades s @ [tr] \<and>
        trade_type tr = SELL \<and> trade_price tr = p \<and>
        quote a' - quote a = amount tr * trade_price tr \<and>
        base a' - base a = - amount tr \<and>
        quote a' + base a' * trade_price tr = quote a + base a * trade_price tr)"
  using assms
  by (auto simp: executeSellLogic_def Let_def sendTelegramNotification_def emit_def algebra_simps
      split: option.splits prod.splits if_splits)

text \<open>
  C7. A call of the buy logic at a non-zero price (price points are positive) either
  leaves the state as it is or appends one BUY trade at that price and changes the
  account by exactly quote - amount * price and base + amount. A call of the sell logic
  either leaves the state as it is or appends one SELL trade at the tick's price and
  changes the account by exactly quote + amount * price and base - amount. In both
  cases the mark-to-market value quote + base * price at the trade's price is unchanged.
\<close>

theorem trade_conservation:
  "(executeBuyLogic p t f sl pf ps rl s = Inr s1 \<longrightarrow> p \<noteq> 0 \<longrightarrow>
      s1 = s \<or>
      (\<exists>tr a a'. account s = Some a \<and> account s1 = Some a' \<and>
         trades s1 = trades s @ [tr] \<and> openPositions s1 = openPositions s @ [tr] \<and>
         trade_type tr = BUY \<and> trade_price tr = p \<and>
         quote a' - quote a = - (amount tr * trade_price tr) \<and>
         base a' - base a = amount tr \<and>
         quote a' + base a' * trade_price tr = quote a + base a * trade_price tr)) \<and>
   (executeSellLogic p t f sl pf ps s = Inr s2 \<longrightarrow>
      s2 = s \<or>
      (\<exists>tr a a'. account s = Some a \<and> account s2 = Some a' \<and>
         trades s2 = trades s @ [tr] \<and>
         trade_type tr = SELL \<and> trade_price tr = p \<and>
         quote a' - quote a = amount tr * trade_price tr \<and>
         base a' - base a = - amount tr \<and>
         quote a' + base a' * trade_price tr = quote a + base a * trade_price tr))"
  using executeBuyLogic_conservation [of p t f sl pf ps rl s s1]
    executeSellLogic_conservation [of p t f sl pf ps s s2]
  by blast


theorem trade_conservation_witness:
  "(case replay_run 16 of
      Inl e \<Rightarrow> False
    | Inr s \<Rightarrow>
        (case executeBuyLogic 101 16 2 1 1 1 (Num 125) s of
           Inl e \<Rightarrow> False
         | Inr s1 \<Rightarrow>
             (101 :: real) \<noteq> 0 \<and> s1 \<noteq> s \<and>
             (\<exists>tr a a'. account s = Some a \<and> account s1 = Some a' \<and>
                trades s1 = trades s @ [tr] \<and> trade_type tr = BUY \<and>
                quote a' - quote a = - (amount tr * trade_price tr) \<and>
                base a' - base a = amount tr))) \<and>
   (case replay_run 21 of
      Inl e \<Rightarrow> False
    | Inr s \<Rightarrow>
        (case executeSellLogic 107 21 1 1 1 1 s of
           Inl e \<Rightarrow> False
         | Inr s2 \<Rightarrow>
             s2 \<noteq> s \<and>
             (\<exists>tr a a'. account s = Some a \<and> account s2 = Some a' \<and>
                trades s2 = trades s @ [tr] \<and> trade_type tr = SELL \<and>
                quote a' - quote a = amount tr * trade_price tr \<and>
                base a' - base a = - amount tr)))"
proof -
  have "case replay_run 16 of Inl e \<Rightarrow> False
        | Inr s \<Rightarrow> (case executeBuyLogic 101 16 2 1 1 1 (Num 125) s of Inl e \<Rightarrow> False
                     | Inr s1 \<Rightarrow> trades s1 \<noteq> trades s)"
    by code_simp
  then obtain sa s1 where buy: "replay_run 16 = Inr sa"
    "executeBuyLogic 101 16 2 1 1 1 (Num 125) sa = Inr s1" "trades s1 \<noteq> trades sa"
    by (auto split: sum.splits)
  have "case replay_run 21 of Inl e \<Rightarrow> False
        | Inr s \<Rightarrow> (case executeSellLogic 107 21 1 1 1 1 s of Inl e \<Rightarrow> False
                     | Inr s2 \<Rightarrow> trades s2 \<noteq> trades s)"
    by code_simp
  then obtain sb s2 where sell: "replay_run 21 = Inr sb"
    "executeSellLogic 107 21 1 1 1 1 sb = Inr s2" "trades s2 \<noteq> trades sb"
    by (auto split: sum.splits)
  from buy(3) have ne1: "s1 \<noteq> sa" by auto
  from sell(3) have ne2: "s2 \<noteq> sb" by auto
  from trade_conservation [of 101 16 2 1 1 1 "Num 125" sa s1 s2] buy(2) ne1
  have c1: "\<exists>tr a a'. account sa = Some a \<and> account s1 = Some a' \<and>
                trades s1 = trades sa @ [tr] \<and> trade_type tr = BUY \<and>
                quote a' - quote a = - (amount tr * trade_price tr) \<and>
                base a' - base a = amount tr"
    by fastforce
  from trade_conservation [of 107 21 1 1 1 1 rl sb s1 s2] sell(2) ne2
  have c2: "\<exists>tr a a'. account sb = Some a \<and> account s2 = Some a' \<and>
                trades s2 = trades sb @ [tr] \<and> trade_type tr = SELL \<and>
                quote a' - quote a = amount tr * trade_price tr \<and>
                base a' - base a = - amount tr"
    by fastforce
  from buy sell ne1 ne2 c1 c2 show ?thesis by simp
qed

section \<open>The scan of the open positions\<close>







section \<open>Sell and buy in one tick\<close>

text \<open>
  C1. The 21st tick of the example replay (price 115) finds the positions bought at 101
  and at 102 open. Its sell logic closes the first by the sell trigger, and its buy logic,
  which runs unconditionally afterwards, opens a new position on the bullish crossover:
  the tick appends a SELL and a BUY to the trade log.
\<close>

theorem tick_sells_and_buys:
  "(case replay_run 20 of
      Inl e \<Rightarrow> False
    | Inr s \<Rightarrow>
        (case executeTick None 0 s of
           Inl e \<Rightarrow> False
         | Inr s' \<Rightarrow>
             map trade_id (openPositions s) = [0, 1] \<and>
             currentPrice s' = 115 \<and>
             map (\<lambda>tr. (trade_id tr, trade_type tr, reason tr)) (drop (length (trades s)) (trades s')) =
               [(2, SELL, ''Sell Trigger''), (3, BUY, ''MACD Crossover'')] \<and>
             map trade_id (openPositions s') = [1, 3]))"
  by code_simp

section \<open>The in-flight flag in live mode\<close>

lemma live_tick_skipped:
  assumes "isRunning s" "settings s = Some st" "replaySeries (backtestData s) = None"
    "isProcessingTick s"
  shows "run (map (\<lambda>(fetched, now). Tick fetched now) ws) s = Inr s"
proof (induction ws)
  case Nil
  show ?case by simp
next
  case (Cons w ws)
  obtain fetched now where w: "w = (fetched, now)" by (cases w)
  from assms have "executeTick fetched now s = Inr s" by (simp add: executeTick_def)
  with Cons w show ?case by simp
qed

text \<open>
  C6. A live session on a new engine: start obtains the initial price p0 and seeds the
  chart history with one point. The first tick fetches p1, finds no previous moving
  averages and returns at the warm-up gate, which does not release the in-flight flag:
  isProcessingTick is still true after the tick has completed. Every later tick returns
  at the guard, whatever its fetch would have delivered: the state never changes again.
\<close>

theorem live_warmup_keeps_flag:
  "\<exists>s2. executeTick (Some p1) t1 (start st None live (Some p0) t0 TradingEngine_new) = Inr s2 \<and>
         isRunning s2 \<and> currentPrice s2 = p1 \<and> isProcessingTick s2 \<and>
         run (map (\<lambda>(fetched, now). Tick fetched now) ws) s2 = Inr s2"
proof -
  let ?s1 = "start st None live (Some p0) t0 TradingEngine_new"
  have s1: "isRunning ?s1" "settings ?s1 = Some st" "backtestData ?s1 = None"
    "\<not> isProcessingTick ?s1" "length (chartData ?s1) = 1"
    by (simp_all add: start_def schedule_def replaySeries_def TradingEngine_new_def Let_def
        emit_def split: option.splits)
  let ?s1' = "emit (FetchPrice (tradingPair st)) (?s1\<lparr>isProcessingTick := True\<rparr>)"
  let ?s2 = "notifyUpdate (?s1'\<lparr>chartData := slice_last 500 (chartData ?s1' @ [calculateIndicators st p1 t1 (chartData ?s1')]), currentPrice := p1\<rparr>)"
  from s1(5) have "processPrice st p1 t1 ?s1' = Inr ?s2"
    by (simp add: processPrice_def prevMA_def emit_def Let_def)
  with s1 have tick: "executeTick (Some p1) t1 ?s1 = Inr ?s2"
    by (simp add: executeTick_def replaySeries_def)
  from s1 have s2: "isRunning ?s2" "settings ?s2 = Some st"
    "replaySeries (backtestData ?s2) = None" "isProcessingTick ?s2" "currentPrice ?s2 = p1"
    by (simp_all add: emit_def replaySeries_def)
  from tick s2 live_tick_skipped [OF s2(1-4), of ws] show ?thesis by blast
qed

section \<open>start with an empty replay series\<close>




end
